theory Spec2Isabelle
  imports Main
begin

section \<open>Priority engine\<close>

text \<open>
  The four priority tools look a pair of level names up in an object literal,
  \<^verbatim>\<open>priorityMatrix\<close>, whose rows are object literals again. The level names are
  strings at run time (the three tables of agent-tools are typed
  \<^verbatim>\<open>Record<string, Record<string, number>>\<close>), so the tables are association lists
  keyed by strings, in the order of the source.
\<close>

type_synonym row = "(string \<times> int) list"
type_synonym matrix = "(string \<times> row) list"

text \<open>
  Reading a property of an object literal finds an own property, or else a property
  inherited from \<^verbatim>\<open>Object.prototype\<close>, or else \<^verbatim>\<open>undefined\<close>. The names below are
  the own properties of \<^verbatim>\<open>Object.prototype\<close> in Node.js.
\<close>

definition object_prototype_keys :: "string list" where
  "object_prototype_keys =
     [''constructor'', ''__defineGetter__'', ''__defineSetter__'', ''hasOwnProperty'',
      ''__lookupGetter__'', ''__lookupSetter__'', ''isPrototypeOf'',
      ''propertyIsEnumerable'', ''toString'', ''valueOf'', ''__proto__'',
      ''toLocaleString'']"

datatype 'a property = Own 'a | Inherited string | Missing

definition js_prop :: "(string \<times> 'a) list \<Rightarrow> string \<Rightarrow> 'a property" where
  "js_prop obj k =
     (case map_of obj k of
        Some v \<Rightarrow> Own v
      | None \<Rightarrow> if k \<in> set object_prototype_keys then Inherited k else Missing)"

text \<open>
  What a tool ends up with as \<^verbatim>\<open>priority\<close>: a number; \<^verbatim>\<open>undefined\<close>; \<^verbatim>\<open>null\<close>; a
  string; or a built-in function or object, named by the property names that lead to
  it from an object literal (\<open>[''toString'']\<close> is \<^verbatim>\<open>({}).toString\<close>).
\<close>

datatype priority =
    P int
  | PUndefined
  | PNull
  | PString string
  | PBuiltin "string list"

text \<open>
  What can be thrown: the TypeError and the SyntaxError of the engine, an
  \<^verbatim>\<open>Error\<close> that this code constructs, with its message, and whatever a collaborator
  (the task runner, the Linear client) threw, kept apart from the errors of the code.
\<close>

datatype error =
    TypeError
  | SyntaxError
  | Error string
  | External string

text \<open>
  The members of the built-ins that an object literal inherits. Under
  \<^verbatim>\<open>__proto__\<close> it has \<^verbatim>\<open>Object.prototype\<close> itself, whose own \<^verbatim>\<open>__proto__\<close> is
  \<^verbatim>\<open>null\<close>; under \<^verbatim>\<open>constructor\<close> the function \<^verbatim>\<open>Object\<close>; under each other
  name a built-in function. A built-in function has its own \<^verbatim>\<open>length\<close> and
  \<^verbatim>\<open>name\<close> and inherits from \<^verbatim>\<open>Function.prototype\<close>, where \<^verbatim>\<open>arguments\<close> and
  \<^verbatim>\<open>caller\<close> are accessors that throw a TypeError, and from \<^verbatim>\<open>Object.prototype\<close>.
  The own properties of \<^verbatim>\<open>Object\<close> are those of ECMAScript 2024 (Node.js 22).
\<close>

definition function_prototype_keys :: "string list" where
  "function_prototype_keys =
     [''length'', ''name'', ''arguments'', ''caller'', ''constructor'', ''apply'', ''bind'',
      ''call'', ''toString'']"

definition object_constructor_keys :: "string list" where
  "object_constructor_keys =
     [''length'', ''name'', ''prototype'', ''assign'', ''getOwnPropertyDescriptor'',
      ''getOwnPropertyDescriptors'', ''getOwnPropertyNames'', ''getOwnPropertySymbols'',
      ''hasOwn'', ''is'', ''preventExtensions'', ''seal'', ''create'', ''defineProperties'',
      ''defineProperty'', ''freeze'', ''getPrototypeOf'', ''setPrototypeOf'',
      ''isExtensible'', ''isFrozen'', ''isSealed'', ''keys'', ''entries'', ''fromEntries'',
      ''values'', ''groupBy'']"

text \<open>The \<^verbatim>\<open>length\<close> and the \<^verbatim>\<open>name\<close> of the function inherited under a name.\<close>

definition builtin_length :: "string \<Rightarrow> int" where
  "builtin_length a =
     (if a \<in> set [''__defineGetter__'', ''__defineSetter__''] then 2
      else if a \<in> set [''toString'', ''valueOf'', ''toLocaleString''] then 0
      else 1)"

definition builtin_name :: "string \<Rightarrow> string" where
  "builtin_name a = (if a = ''constructor'' then ''Object'' else a)"

text \<open>
  The names under which the built-in inherited as \<open>a\<close> has a member, and reading the
  member \<open>b\<close> of it.
\<close>

definition inherited_member_keys :: "string \<Rightarrow> string list" where
  "inherited_member_keys a =
     (if a = ''__proto__'' then object_prototype_keys
      else if a = ''constructor''
        then object_constructor_keys @ function_prototype_keys @ object_prototype_keys
      else function_prototype_keys @ object_prototype_keys)"

definition inherited_member :: "string \<Rightarrow> string \<Rightarrow> error + priority" where
  "inherited_member a b =
     (if b \<notin> set (inherited_member_keys a) then Inr PUndefined
      else if a = ''__proto__'' then
        (if b = ''__proto__'' then Inr PNull else Inr (PBuiltin [a, b]))
      else if b = ''arguments'' \<or> b = ''caller'' then Inl TypeError
      else if b = ''length'' then Inr (P (builtin_length a))
      else if b = ''name'' then Inr (PString (builtin_name a))
      else Inr (PBuiltin [a, b]))"

text \<open>\<^verbatim>\<open>v ?? 3\<close>: the default replaces \<^verbatim>\<open>undefined\<close> and \<^verbatim>\<open>null\<close> only.\<close>

definition nullish_default :: "error + priority \<Rightarrow> error + priority" where
  "nullish_default v =
     (case v of
        Inr PUndefined \<Rightarrow> Inr (P 3)
      | Inr PNull \<Rightarrow> Inr (P 3)
      | _ \<Rightarrow> v)"

text \<open>
  \<^verbatim>\<open>priorityMatrix[a]?.[b] ?? 3\<close>, the expression of the three tools of agent-tools,
  which each tool then stores on the issue and returns as \<^verbatim>\<open>newPriority\<close>.
\<close>

definition index_opt_default :: "matrix \<Rightarrow> string \<Rightarrow> string \<Rightarrow> error + priority" where
  "index_opt_default priorityMatrix a b =
     nullish_default
       (case js_prop priorityMatrix a of
          Missing \<Rightarrow> Inr PUndefined
        | Inherited x \<Rightarrow> inherited_member x b
        | Own r \<Rightarrow>
            (case js_prop r b of
               Missing \<Rightarrow> Inr PUndefined
             | Inherited y \<Rightarrow> Inr (PBuiltin [y])
             | Own n \<Rightarrow> Inr (P n)))"

text \<open>
  \<^verbatim>\<open>priorityMatrix[a][b]\<close>, the expression of \<^verbatim>\<open>createPriorityAssessmentTool\<close>:
  indexing \<^verbatim>\<open>undefined\<close> throws a TypeError, and nothing replaces a missing entry.
\<close>

definition index_index :: "matrix \<Rightarrow> string \<Rightarrow> string \<Rightarrow> error + priority" where
  "index_index priorityMatrix a b =
     (case js_prop priorityMatrix a of
        Missing \<Rightarrow> Inl TypeError
      | Inherited x \<Rightarrow> inherited_member x b
      | Own r \<Rightarrow>
          (case js_prop r b of
             Missing \<Rightarrow> Inr PUndefined
           | Inherited y \<Rightarrow> Inr (PBuiltin [y])
           | Own n \<Rightarrow> Inr (P n)))"

subsection \<open>agent-tools: the three \<^verbatim>\<open>updatePriority\<close> tools\<close>

definition bug_priorityMatrix :: matrix where
  "bug_priorityMatrix =
     [(''critical'', [(''critical'', 1), (''high'', 1), (''medium'', 2), (''low'', 2)]),
      (''high'',     [(''critical'', 1), (''high'', 2), (''medium'', 2), (''low'', 3)]),
      (''medium'',   [(''critical'', 2), (''high'', 2), (''medium'', 3), (''low'', 3)]),
      (''low'',      [(''critical'', 2), (''high'', 3), (''medium'', 3), (''low'', 4)])]"

definition createBugAgentTools_updatePriority :: "string \<Rightarrow> string \<Rightarrow> error + priority" where
  "createBugAgentTools_updatePriority impact urgency =
     index_opt_default bug_priorityMatrix impact urgency"

definition feature_priorityMatrix :: matrix where
  "feature_priorityMatrix =
     [(''critical'', [(''small'', 1), (''medium'', 1), (''large'', 2), (''xlarge'', 2)]),
      (''high'',     [(''small'', 1), (''medium'', 2), (''large'', 2), (''xlarge'', 3)]),
      (''medium'',   [(''small'', 2), (''medium'', 2), (''large'', 3), (''xlarge'', 3)]),
      (''low'',      [(''small'', 3), (''medium'', 3), (''large'', 4), (''xlarge'', 4)])]"

definition createFeatureAgentTools_updatePriority :: "string \<Rightarrow> string \<Rightarrow> error + priority" where
  "createFeatureAgentTools_updatePriority businessValue implementationEffort =
     index_opt_default feature_priorityMatrix businessValue implementationEffort"

definition improvement_priorityMatrix :: matrix where
  "improvement_priorityMatrix =
     [(''critical'', [(''low'', 1), (''medium'', 1), (''high'', 2)]),
      (''high'',     [(''low'', 1), (''medium'', 2), (''high'', 3)]),
      (''medium'',   [(''low'', 2), (''medium'', 3), (''high'', 3)]),
      (''low'',      [(''low'', 3), (''medium'', 3), (''high'', 4)])]"

definition createImprovementAgentTools_updatePriority :: "string \<Rightarrow> string \<Rightarrow> error + priority" where
  "createImprovementAgentTools_updatePriority technicalImpact implementationRisk =
     index_opt_default improvement_priorityMatrix technicalImpact implementationRisk"

subsection \<open>tools: \<^verbatim>\<open>createPriorityAssessmentTool\<close>\<close>

definition assessment_priorityMatrix :: matrix where
  "assessment_priorityMatrix =
     [(''critical'', [(''critical'', 1), (''high'', 2), (''medium'', 2), (''low'', 3)]),
      (''high'',     [(''critical'', 2), (''high'', 2), (''medium'', 3), (''low'', 3)]),
      (''medium'',   [(''critical'', 2), (''high'', 3), (''medium'', 3), (''low'', 4)]),
      (''low'',      [(''critical'', 3), (''high'', 3), (''medium'', 4), (''low'', 4)])]"

definition createPriorityAssessmentTool :: "string \<Rightarrow> string \<Rightarrow> error + priority" where
  "createPriorityAssessmentTool impact urgency =
     index_index assessment_priorityMatrix impact urgency"


text \<open>The table a tool computes over given row and column levels, row by row.\<close>

definition tabulate :: "(string \<Rightarrow> string \<Rightarrow> 'a) \<Rightarrow> string list \<Rightarrow> string list \<Rightarrow> 'a list list" where
  "tabulate f rows cols = map (\<lambda>r. map (\<lambda>c. f r c) cols) rows"


section \<open>Authenticator\<close>

text \<open>
  The body of a request is parsed by \<^verbatim>\<open>JSON.parse\<close> and read through two interfaces:
  \<^verbatim>\<open>WebhookTimestampPayload\<close> (the timestamp, a number of milliseconds since the
  epoch, here an integer) and \<^verbatim>\<open>LinearWebhookPayload\<close> with the optional
  \<^verbatim>\<open>updatedFrom\<close> of the label-update classifier. A field the code reads with
  \<^verbatim>\<open>?.\<close> or compares with \<^verbatim>\<open>undefined\<close> is optional here. A body that parses to
  a value outside these interfaces (a field of another type, or no object at all) is
  outside this development.
\<close>

record LabelNode =
  name :: string

record Labels =
  nodes :: "LabelNode list option"

record IssueData =
  id' :: string
  title :: string
  description :: string
  labels :: "Labels option"

record UpdatedFrom =
  labelIds :: "string list option"

record WebhookTimestampPayload =
  webhookTimestamp :: int

record LinearWebhookPayload = WebhookTimestampPayload +
  action :: string
  data :: "IssueData option"
  type :: string
  updatedFrom :: "UpdatedFrom option"

record WebhookHeaders =
  linear_delivery :: string
  linear_event :: string
  linear_signature :: string

datatype LinearClient = LinearClient string

datatype TaskPrompt = TaskPrompt string string string string

text \<open>
  What the code takes from outside: \<^verbatim>\<open>createHmac("sha256", secret).update(payload).digest("hex")\<close>
  (key first), \<^verbatim>\<open>JSON.parse\<close> (\<open>None\<close> when it throws a SyntaxError),
  \<^verbatim>\<open>Date.now()\<close>, the task runner \<^verbatim>\<open>task.run()\<close> for a prompt built from the
  issue id, title, description and label (\<open>Inl\<close> what it throws, \<open>Inr\<close> the text of
  its result), \<^verbatim>\<open>client.createComment({issueId, body})\<close> (\<open>Inl\<close> what it throws) and
  the Unicode case mapping of \<^verbatim>\<open>String.prototype.toLowerCase\<close>, used on strings with
  a character beyond ASCII.
\<close>

record runtime =
  hmac_sha256_hex :: "string \<Rightarrow> string \<Rightarrow> string"
  JSON_parse :: "string \<Rightarrow> LinearWebhookPayload option"
  Date_now :: int
  task_run :: "TaskPrompt \<Rightarrow> string + string"
  createComment :: "LinearClient \<Rightarrow> string \<Rightarrow> string \<Rightarrow> string + unit"
  String_toLowerCase :: "string \<Rightarrow> string"

definition ALLOWED_IPS :: "string list" where
  "ALLOWED_IPS =
     [''35.231.147.226'', ''35.243.134.228'', ''34.140.253.14'', ''34.38.87.206'']"

definition verifyWebhookSignature :: "runtime \<Rightarrow> string \<Rightarrow> string \<Rightarrow> string \<Rightarrow> bool" where
  "verifyWebhookSignature rt payload signature secret =
     (let computedSignature = hmac_sha256_hex rt secret payload
      in signature = computedSignature)"

definition verifyWebhookTimestamp :: "runtime \<Rightarrow> 'a WebhookTimestampPayload_scheme \<Rightarrow> bool" where
  "verifyWebhookTimestamp rt payload =
     (let webhookTime = webhookTimestamp payload;
          currentTime = Date_now rt
      in \<bar>currentTime - webhookTime\<bar> \<le> 60 * 1000)"

definition verifyWebhookIp :: "string \<Rightarrow> bool" where
  "verifyWebhookIp ip = (ip \<in> set ALLOWED_IPS)"

text \<open>Truthiness of an optional string: \<^verbatim>\<open>undefined\<close> and \<^verbatim>\<open>""\<close> are falsy.\<close>

definition truthy :: "string option \<Rightarrow> bool" where
  "truthy v = (case v of None \<Rightarrow> False | Some s \<Rightarrow> s \<noteq> [])"

definition isIssueCreationEvent :: "LinearWebhookPayload \<Rightarrow> bool" where
  "isIssueCreationEvent payload =
     (type payload = ''Issue'' \<and>
      action payload = ''create'' \<and>
      truthy (map_option id' (data payload)) \<and>
      truthy (map_option title (data payload)))"

definition isIssueLabelUpdateEvent :: "LinearWebhookPayload \<Rightarrow> bool" where
  "isIssueLabelUpdateEvent payload =
     (type payload = ''Issue'' \<and>
      action payload = ''update'' \<and>
      truthy (map_option id' (data payload)) \<and>
      (Option.bind (updatedFrom payload) labelIds \<noteq> None \<or>
       Option.bind (Option.bind (data payload) labels) nodes \<noteq> None))"

text \<open>
  The validator, check by check in the order of the source. What it prints with
  \<^verbatim>\<open>console.error\<close> before returning false is not part of its result.
\<close>

definition validateWebhookRequest ::
  "runtime \<Rightarrow> WebhookHeaders \<Rightarrow> string \<Rightarrow> string \<Rightarrow> string \<Rightarrow> error + bool" where
  "validateWebhookRequest rt headers body ip webhookSecret =
     (if webhookSecret = [] then Inl (Error ''LINEAR_WEBHOOK_SECRET is not configured'')
      else if \<not> verifyWebhookIp ip then Inr False
      else if \<not> verifyWebhookSignature rt body (linear_signature headers) webhookSecret
        then Inr False
      else
        (case JSON_parse rt body of
           None \<Rightarrow> Inl SyntaxError
         | Some payload \<Rightarrow>
             if \<not> verifyWebhookTimestamp rt payload then Inr False else Inr True))"

section \<open>Environment, clients and the comment tool\<close>

text \<open>
  \<^verbatim>\<open>a || d\<close> on a string that may be \<^verbatim>\<open>undefined\<close> or \<^verbatim>\<open>null\<close>, and
  \<^verbatim>\<open>xs.join(sep)\<close>.
\<close>

definition or_else :: "string option \<Rightarrow> string option \<Rightarrow> string option" where
  "or_else a b = (if truthy a then a else b)"

definition or_string :: "string option \<Rightarrow> string \<Rightarrow> string" where
  "or_string a d = (case or_else a (Some d) of Some s \<Rightarrow> s | None \<Rightarrow> d)"

fun join :: "string \<Rightarrow> string list \<Rightarrow> string" where
  "join sep [] = []"
| "join sep [x] = x"
| "join sep (x # y # ys) = x @ sep @ join sep (y # ys)"

text \<open>
  \<^verbatim>\<open>env.X as string\<close>: the cast changes nothing at run time. After validation the
  value is a non-empty string; \<^verbatim>\<open>undefined\<close> is read as the empty string here (both
  are falsy).
\<close>

definition as_string :: "string option \<Rightarrow> string" where
  "as_string v = (case v of Some s \<Rightarrow> s | None \<Rightarrow> [])"

record Env =
  upstashRedisUrl :: "string option"
  upstashRedisToken :: "string option"
  linearWebhookSecret :: string
  managerApiKey :: string
  bugApiKey :: string
  featureApiKey :: string
  improvementApiKey :: string

definition validateEnv :: "(string \<rightharpoonup> string) \<Rightarrow> error + Env" where
  "validateEnv env =
     (let required =
            [''LINEAR_WEBHOOK_SECRET'', ''MANAGER_API_KEY'', ''BUG_API_KEY'',
             ''FEATURE_API_KEY'', ''IMPROVEMENT_API_KEY''];
          missing = filter (\<lambda>key. \<not> truthy (env key)) required
      in if length missing > 0
         then Inl (Error (''Missing required environment variables: '' @ join '', '' missing))
         else Inr \<lparr>upstashRedisUrl = env ''UPSTASH_REDIS_URL'',
                   upstashRedisToken = env ''UPSTASH_REDIS_TOKEN'',
                   linearWebhookSecret = as_string (env ''LINEAR_WEBHOOK_SECRET''),
                   managerApiKey = as_string (env ''MANAGER_API_KEY''),
                   bugApiKey = as_string (env ''BUG_API_KEY''),
                   featureApiKey = as_string (env ''FEATURE_API_KEY''),
                   improvementApiKey = as_string (env ''IMPROVEMENT_API_KEY'')\<rparr>)"

text \<open>
  \<^verbatim>\<open>new LinearClient({ apiKey })\<close> stores the key; the constructor is taken not to
  throw, so the rethrowing \<^verbatim>\<open>catch\<close> around it has no branch here.
\<close>

definition initializeLinearClient :: "string option \<Rightarrow> string \<Rightarrow> error + LinearClient" where
  "initializeLinearClient apiKey role =
     (if \<not> truthy apiKey then Inl (Error (''Missing API key for '' @ role @ '' role''))
      else Inr (LinearClient (as_string apiKey)))"

text \<open>
  The effects the dispatch code has besides its result: what it logs with
  \<^verbatim>\<open>console.error\<close> (the label and the error) and each call of
  \<^verbatim>\<open>client.createComment\<close> (the client, the issue and the body), in order.
\<close>

datatype effect =
    ConsoleError string error
  | CreateComment LinearClient string string

text \<open>\<^verbatim>\<open>createCommentTool(client, agentName).invoke({ issueId, content })\<close>.\<close>

definition createCommentTool ::
  "runtime \<Rightarrow> LinearClient \<Rightarrow> string \<Rightarrow> string \<Rightarrow> string \<Rightarrow> (error + string) \<times> effect list" where
  "createCommentTool rt client agentName issueId content =
     (let body = ''['' @ agentName @ ''] '' @ content
      in (case createComment rt client issueId body of
            Inl e \<Rightarrow> Inl (External e)
          | Inr _ \<Rightarrow> Inr ''Comment added successfully'',
          [CreateComment client issueId body]))"

section \<open>Label extraction\<close>

text \<open>
  \<^verbatim>\<open>s.toLowerCase()\<close>. On a string of ASCII characters the Unicode case mapping
  turns each of \<open>A\<close>..\<open>Z\<close> into the letter of \<open>a\<close>..\<open>z\<close> and keeps every other
  character. A string with a character beyond ASCII (a char from 128 on, however the
  text is encoded) is mapped by the engine as a whole, since that mapping is not
  character by character.
\<close>

definition lower_char :: "char \<Rightarrow> char" where
  "lower_char c =
     (case map_of (zip ''ABCDEFGHIJKLMNOPQRSTUVWXYZ'' ''abcdefghijklmnopqrstuvwxyz'') c of
        Some l \<Rightarrow> l
      | None \<Rightarrow> c)"

definition is_ascii :: "char \<Rightarrow> bool" where
  "is_ascii c = (of_char c < (128 :: nat))"

definition toLowerCase :: "runtime \<Rightarrow> string \<Rightarrow> string" where
  "toLowerCase rt s =
     (if list_all is_ascii s then map lower_char s else String_toLowerCase rt s)"

text \<open>\<^verbatim>\<open>labels?.nodes?.[0]?.name || ""\<close> and its lower-casing.\<close>

definition firstLabel :: "Labels option \<Rightarrow> string" where
  "firstLabel ls =
     or_string
       (map_option name
          (Option.bind (Option.bind ls nodes) (\<lambda>ns. case ns of [] \<Rightarrow> None | n # _ \<Rightarrow> Some n)))
       []"

definition issueLabel :: "runtime \<Rightarrow> Labels option \<Rightarrow> string" where
  "issueLabel rt ls = toLowerCase rt (firstLabel ls)"

text \<open>
  The prompt of the task: the issue id, title, description and label it interpolates.
  Building the model, the agents and the task (\<^verbatim>\<open>context.agents\<close>) is taken not to
  throw.
\<close>

definition task_prompt :: "runtime \<Rightarrow> IssueData \<Rightarrow> TaskPrompt" where
  "task_prompt rt d = TaskPrompt (id' d) (title d) (description d) (issueLabel rt (labels d))"

definition error_notice :: string where
  "error_notice = ''An error occurred while processing this issue. The team has been notified.''"

section \<open>Entry points\<close>

text \<open>
  A request as both entry points read it: the headers by name (absent is \<open>None\<close>) and
  the raw body. A response is a status and a JSON body of one of four shapes; the body
  of a 500 response is computed from the caught error (its message and constructor
  name), which is kept here as the error itself.
\<close>

record WebhookRequest =
  headers :: "string \<rightharpoonup> string"
  body :: string

datatype response_body =
    ErrorDetails string string
  | MessageDetails string string
  | MessageTaskResult string string
  | ErrorDetailsType string error

datatype Response = Response (status: nat) (json: response_body)

definition bind_result :: "error + 'a \<Rightarrow> ('a \<Rightarrow> error + 'b) \<Rightarrow> error + 'b" where
  "bind_result r f = (case r of Inl e \<Rightarrow> Inl e | Inr x \<Rightarrow> f x)"

text \<open>
  \<^verbatim>\<open>s.split(sep)[0]\<close> and \<^verbatim>\<open>s.trim()\<close>. A header value is a byte string, one
  char for each byte, as \<^verbatim>\<open>Headers.get\<close> gives it; the white space and line
  terminators that \<^verbatim>\<open>trim\<close> strips are, among the characters up to U+00FF, the
  seven below (U+00A0 is the no-break space).
\<close>

definition split_first :: "char \<Rightarrow> string \<Rightarrow> string" where
  "split_first sep s = takeWhile (\<lambda>c. c \<noteq> sep) s"

definition is_space :: "char \<Rightarrow> bool" where
  "is_space c =
     (c \<in> set [CHR 0x09, CHR 0x0A, CHR 0x0B, CHR 0x0C, CHR 0x0D, CHR 0x20, CHR 0xA0])"

definition trim :: "string \<Rightarrow> string" where
  "trim s = rev (dropWhile is_space (rev (dropWhile is_space s)))"

definition request_headers :: "WebhookRequest \<Rightarrow> WebhookHeaders" where
  "request_headers req =
     \<lparr>linear_delivery = or_string (headers req ''linear-delivery'') [],
      linear_event = or_string (headers req ''linear-event'') [],
      linear_signature = or_string (headers req ''linear-signature'') []\<rparr>"

definition POST_ip :: "WebhookRequest \<Rightarrow> string" where
  "POST_ip req =
     or_string
       (or_else
          (map_option (\<lambda>v. trim (split_first CHR '','' v)) (headers req ''x-forwarded-for''))
          (headers req ''x-real-ip''))
       ''0.0.0.0''"

definition serve_ip :: "WebhookRequest \<Rightarrow> string" where
  "serve_ip request = or_string (headers request ''cf-connecting-ip'') ''0.0.0.0''"

text \<open>
  The re-check of the payload after the classifier, the same in both entry points:
  destructuring \<^verbatim>\<open>payload.data\<close> (a TypeError when it is \<^verbatim>\<open>undefined\<close>) and the
  test of \<^verbatim>\<open>issueId\<close>.
\<close>

definition recheck_payload :: "LinearWebhookPayload \<Rightarrow> error + IssueData" where
  "recheck_payload payload =
     (case data payload of
        None \<Rightarrow> Inl TypeError
      | Some d \<Rightarrow>
          if id' d = [] then Inl (Error ''Invalid payload: missing issue ID'') else Inr d)"

subsection \<open>api/webhook: \<^verbatim>\<open>POST\<close>\<close>

text \<open>The inner \<^verbatim>\<open>try\<close> around \<^verbatim>\<open>task.run()\<close>, with its effects.\<close>

definition POST_dispatch ::
  "runtime \<Rightarrow> LinearClient \<Rightarrow> string \<Rightarrow> TaskPrompt \<Rightarrow> (error + Response) \<times> effect list" where
  "POST_dispatch rt managerClient issueId prompt =
     (case task_run rt prompt of
        Inr text \<Rightarrow>
          (Inr (Response 200 (MessageTaskResult ''Issue processed successfully'' text)), [])
      | Inl thrown \<Rightarrow>
          (let taskError = External thrown;
               (commented, effects) =
                 createCommentTool rt managerClient ''Manager Bot'' issueId error_notice
           in (Inl taskError,
               [ConsoleError ''Task execution error:'' taskError] @ effects @
               (case commented of
                  Inl commentError \<Rightarrow>
                    [ConsoleError ''Failed to comment error on issue:'' commentError]
                | Inr _ \<Rightarrow> []))))"

text \<open>
  The body of the outer \<^verbatim>\<open>try\<close>. The clients are initialised from
  \<^verbatim>\<open>env.managerLinearApiKey\<close>, \<^verbatim>\<open>env.bugLinearApiKey\<close>,
  \<^verbatim>\<open>env.featureLinearApiKey\<close> and \<^verbatim>\<open>env.improvementLinearApiKey\<close>: the object that
  \<^verbatim>\<open>validateEnv\<close> returns has no property of these names, so each read is
  \<^verbatim>\<open>undefined\<close>.
\<close>

definition POST_try :: "runtime \<Rightarrow> Env \<Rightarrow> WebhookRequest \<Rightarrow> error + Response" where
  "POST_try rt env req =
     bind_result
       (validateWebhookRequest rt (request_headers req) (body req) (POST_ip req)
          (linearWebhookSecret env))
       (\<lambda>valid.
          if \<not> valid
          then Inr (Response 401
                 (ErrorDetails ''Invalid webhook request''
                    ''Failed to validate webhook signature or request''))
          else
            (case JSON_parse rt (body req) of
               None \<Rightarrow> Inl SyntaxError
             | Some payload \<Rightarrow>
                 if \<not> isIssueCreationEvent payload \<and> \<not> isIssueLabelUpdateEvent payload
                 then Inr (Response 200
                        (MessageDetails ''Event ignored'' ''Event type not supported''))
                 else
                   bind_result (recheck_payload payload) (\<lambda>d.
                   bind_result (initializeLinearClient None ''manager'') (\<lambda>managerClient.
                   bind_result (initializeLinearClient None ''bug'') (\<lambda>bugClient.
                   bind_result (initializeLinearClient None ''feature'') (\<lambda>featureClient.
                   bind_result (initializeLinearClient None ''improvement'') (\<lambda>improvementClient.
                     fst (POST_dispatch rt managerClient (id' d) (task_prompt rt d)))))))))"

definition POST_handler :: "runtime \<Rightarrow> Env \<Rightarrow> WebhookRequest \<Rightarrow> Response" where
  "POST_handler rt env req =
     (case POST_try rt env req of
        Inr response \<Rightarrow> response
      | Inl error \<Rightarrow> Response 500 (ErrorDetailsType ''Error processing webhook'' error))"

definition POST :: "runtime \<Rightarrow> (string \<rightharpoonup> string) \<Rightarrow> WebhookRequest \<Rightarrow> error + Response" where
  "POST rt context_env req =
     bind_result (validateEnv context_env) (\<lambda>env. Inr (POST_handler rt env req))"

subsection \<open>index: the \<^verbatim>\<open>serve\<close> handler\<close>

datatype ValidationResult =
  ValidationResult (vstatus: string) (vmessage: "string option")
    (vpayload: "LinearWebhookPayload option")

datatype ServeResult =
    Ignored ValidationResult
  | Processed string string

text \<open>
  \<^verbatim>\<open>context.run(name, f)\<close> runs the step \<open>f\<close> and hands its result, or what it
  throws, on. The step \<^verbatim>\<open>validate-webhook\<close>:
\<close>

definition validate_webhook_step ::
  "runtime \<Rightarrow> Env \<Rightarrow> WebhookRequest \<Rightarrow> error + ValidationResult" where
  "validate_webhook_step rt env request =
     bind_result
       (validateWebhookRequest rt (request_headers request) (body request) (serve_ip request)
          (linearWebhookSecret env))
       (\<lambda>valid.
          if \<not> valid then Inl (Error ''Invalid webhook request'')
          else
            (case JSON_parse rt (body request) of
               None \<Rightarrow> Inl SyntaxError
             | Some payload \<Rightarrow>
                 if \<not> (isIssueCreationEvent payload \<or> isIssueLabelUpdateEvent payload)
                 then Inr (ValidationResult ''ignored'' (Some ''Event type not supported'') None)
                 else Inr (ValidationResult ''valid'' None (Some payload))))"

text \<open>The step \<^verbatim>\<open>initialize-clients\<close>: manager, bug, feature, improvement.\<close>

definition initialize_clients_step ::
  "Env \<Rightarrow> error + (LinearClient \<times> LinearClient \<times> LinearClient \<times> LinearClient)" where
  "initialize_clients_step env =
     bind_result (initializeLinearClient (Some (managerApiKey env)) ''manager'') (\<lambda>manager.
     bind_result (initializeLinearClient (Some (bugApiKey env)) ''bug'') (\<lambda>bug.
     bind_result (initializeLinearClient (Some (featureApiKey env)) ''feature'') (\<lambda>feature.
     bind_result (initializeLinearClient (Some (improvementApiKey env)) ''improvement'')
       (\<lambda>improvement. Inr (manager, bug, feature, improvement)))))"

text \<open>
  The \<^verbatim>\<open>try\<close> around \<^verbatim>\<open>task.run()\<close> in the step \<^verbatim>\<open>process-issue\<close>: the comment
  is awaited inside the \<^verbatim>\<open>catch\<close> with nothing around it, then the task's error is
  rethrown.
\<close>

definition process_issue_step ::
  "runtime \<Rightarrow> LinearClient \<Rightarrow> string \<Rightarrow> TaskPrompt \<Rightarrow> (error + string) \<times> effect list" where
  "process_issue_step rt managerClient issueId prompt =
     (case task_run rt prompt of
        Inr text \<Rightarrow> (Inr text, [])
      | Inl thrown \<Rightarrow>
          (let (commented, effects) =
                 createCommentTool rt managerClient ''Manager Bot'' issueId error_notice
           in (case commented of
                 Inl commentError \<Rightarrow> Inl commentError
               | Inr _ \<Rightarrow> Inl (External thrown),
               effects)))"

definition serve_handler ::
  "runtime \<Rightarrow> (string \<rightharpoonup> string) \<Rightarrow> WebhookRequest \<Rightarrow> error + ServeResult" where
  "serve_handler rt context_env request =
     bind_result (validateEnv context_env) (\<lambda>env.
     bind_result (validate_webhook_step rt env request) (\<lambda>validationResult.
       if vstatus validationResult = ''ignored'' then Inr (Ignored validationResult)
       else
         (case vpayload validationResult of
            None \<Rightarrow> Inl (Error ''Validation succeeded but no payload was returned'')
          | Some payload \<Rightarrow>
              bind_result (recheck_payload payload) (\<lambda>d.
              bind_result (initialize_clients_step env) (\<lambda>clients.
              bind_result (fst (process_issue_step rt (fst clients) (id' d) (task_prompt rt d)))
                (\<lambda>result. Inr (Processed ''Issue processed successfully'' result)))))))"

section \<open>The predicates of the specification\<close>

text \<open>
  The two classifier predicates in the words of the specification: the type is
  \<open>Issue\<close>, the action is \<open>create\<close>, the id and the title are non-empty; or the type is
  \<open>Issue\<close>, the action is \<open>update\<close>, the id is non-empty and the updated label ids or
  the current labels collection are present.
\<close>

definition spec_issue_created :: "LinearWebhookPayload \<Rightarrow> bool" where
  "spec_issue_created p =
     (type p = ''Issue'' \<and> action p = ''create'' \<and>
      (case data p of None \<Rightarrow> False | Some d \<Rightarrow> id' d \<noteq> [] \<and> title d \<noteq> []))"

definition spec_issue_label_updated :: "LinearWebhookPayload \<Rightarrow> bool" where
  "spec_issue_label_updated p =
     (type p = ''Issue'' \<and> action p = ''update'' \<and>
      (case data p of None \<Rightarrow> False | Some d \<Rightarrow> id' d \<noteq> []) \<and>
      ((case updatedFrom p of None \<Rightarrow> False | Some u \<Rightarrow> labelIds u \<noteq> None) \<or>
       (case data p of
          None \<Rightarrow> False
        | Some d \<Rightarrow> (case labels d of None \<Rightarrow> False | Some l \<Rightarrow> nodes l \<noteq> None))))"

text \<open>
  The gap between the priority of \<^verbatim>\<open>createPriorityAssessmentTool\<close> and the priority of
  the Bug tool at a pair of levels, when both are numbers.
\<close>

definition priority_gap :: "string \<Rightarrow> string \<Rightarrow> int option" where
  "priority_gap impact urgency =
     (case (createPriorityAssessmentTool impact urgency,
            createBugAgentTools_updatePriority impact urgency) of
        (Inr (P a), Inr (P b)) \<Rightarrow> Some (a - b)
      | _ \<Rightarrow> None)"

section \<open>Closed examples\<close>

text \<open>
  A small runtime for the closed examples: a toy keyed digest in the place of
  HMAC-SHA256, a parser that knows three bodies, a fixed clock, a task runner and a
  comment poster that succeed or throw as asked, and, the labels of the examples being
  ASCII, a case mapping beyond ASCII that is never called.
\<close>

definition example_hmac :: "string \<Rightarrow> string \<Rightarrow> string" where
  "example_hmac secret payload = secret @ '':'' @ payload"

definition example_issue :: "string \<Rightarrow> IssueData" where
  "example_issue label =
     \<lparr>id' = ''ISS-1'', title = ''Crash on save'', description = ''The editor crashes'',
      labels = Some \<lparr>nodes = Some [\<lparr>name = label\<rparr>]\<rparr>\<rparr>"

definition example_payload :: "string \<Rightarrow> string \<Rightarrow> LinearWebhookPayload" where
  "example_payload ty label =
     \<lparr>webhookTimestamp = 1700000000000, action = ''create'',
      data = Some (example_issue label), type = ty, updatedFrom = None\<rparr>"

definition example_parse :: "string \<Rightarrow> LinearWebhookPayload option" where
  "example_parse b =
     (if b = ''issue-bug.json'' then Some (example_payload ''Issue'' ''Bug'')
      else if b = ''issue-urgent.json'' then Some (example_payload ''Issue'' ''urgent'')
      else if b = ''comment.json'' then Some (example_payload ''Comment'' ''Bug'')
      else None)"

definition example_runtime :: "bool \<Rightarrow> bool \<Rightarrow> runtime" where
  "example_runtime task_fails comment_fails =
     \<lparr>hmac_sha256_hex = example_hmac,
      JSON_parse = example_parse,
      Date_now = 1700000030000,
      task_run = (\<lambda>_. if task_fails then Inl ''task failed'' else Inr ''analysis done''),
      createComment = (\<lambda>_ _ _. if comment_fails then Inl ''comment failed'' else Inr ()),
      String_toLowerCase = (\<lambda>s. s)\<rparr>"

definition example_request :: "string \<Rightarrow> WebhookRequest" where
  "example_request b =
     \<lparr>headers =
        [''linear-signature'' \<mapsto> example_hmac ''secret'' b,
         ''x-forwarded-for'' \<mapsto> ''35.231.147.226, 10.0.0.1'',
         ''cf-connecting-ip'' \<mapsto> ''35.231.147.226''],
      body = b\<rparr>"

definition example_context_env :: "string \<rightharpoonup> string" where
  "example_context_env =
     [''LINEAR_WEBHOOK_SECRET'' \<mapsto> ''secret'', ''MANAGER_API_KEY'' \<mapsto> ''key-m'',
      ''BUG_API_KEY'' \<mapsto> ''key-b'', ''FEATURE_API_KEY'' \<mapsto> ''key-f'',
      ''IMPROVEMENT_API_KEY'' \<mapsto> ''key-i'']"

definition example_env :: Env where
  "example_env =
     \<lparr>upstashRedisUrl = None, upstashRedisToken = None, linearWebhookSecret = ''secret'',
      managerApiKey = ''key-m'', bugApiKey = ''key-b'', featureApiKey = ''key-f'',
      improvementApiKey = ''key-i''\<rparr>"

section \<open>Properties of the priority engine\<close>

lemmas lookup_defs =
  tabulate_def index_opt_default_def index_index_def js_prop_def object_prototype_keys_def
  nullish_default_def

lemmas tool_defs =
  createBugAgentTools_updatePriority_def bug_priorityMatrix_def
  createFeatureAgentTools_updatePriority_def feature_priorityMatrix_def
  createImprovementAgentTools_updatePriority_def improvement_priorityMatrix_def
  createPriorityAssessmentTool_def assessment_priorityMatrix_def

text \<open>
  C1. On every pair of the declared levels the three \<^verbatim>\<open>updatePriority\<close> tools of
  agent-tools give the literal matrices of the specification: Bug by impact (rows) and
  urgency (columns critical, high, medium, low), Feature by business value and effort
  (columns small, medium, large, xlarge), Improvement by technical impact and risk
  (columns low, medium, high). Every entry is one of 1, 2, 3, 4.
\<close>

theorem priority_tables_exact:
  "tabulate createBugAgentTools_updatePriority
     [''critical'', ''high'', ''medium'', ''low'']
     [''critical'', ''high'', ''medium'', ''low''] =
     [[Inr (P 1), Inr (P 1), Inr (P 2), Inr (P 2)],
      [Inr (P 1), Inr (P 2), Inr (P 2), Inr (P 3)],
      [Inr (P 2), Inr (P 2), Inr (P 3), Inr (P 3)],
      [Inr (P 2), Inr (P 3), Inr (P 3), Inr (P 4)]] \<and>
   tabulate createFeatureAgentTools_updatePriority
     [''critical'', ''high'', ''medium'', ''low'']
     [''small'', ''medium'', ''large'', ''xlarge''] =
     [[Inr (P 1), Inr (P 1), Inr (P 2), Inr (P 2)],
      [Inr (P 1), Inr (P 2), Inr (P 2), Inr (P 3)],
      [Inr (P 2), Inr (P 2), Inr (P 3), Inr (P 3)],
      [Inr (P 3), Inr (P 3), Inr (P 4), Inr (P 4)]] \<and>
   tabulate createImprovementAgentTools_updatePriority
     [''critical'', ''high'', ''medium'', ''low'']
     [''low'', ''medium'', ''high''] =
     [[Inr (P 1), Inr (P 1), Inr (P 2)],
      [Inr (P 1), Inr (P 2), Inr (P 3)],
      [Inr (P 2), Inr (P 3), Inr (P 3)],
      [Inr (P 3), Inr (P 3), Inr (P 4)]] \<and>
   set (concat (tabulate createBugAgentTools_updatePriority
          [''critical'', ''high'', ''medium'', ''low'']
          [''critical'', ''high'', ''medium'', ''low''])) \<union>
   set (concat (tabulate createFeatureAgentTools_updatePriority
          [''critical'', ''high'', ''medium'', ''low'']
          [''small'', ''medium'', ''large'', ''xlarge''])) \<union>
   set (concat (tabulate createImprovementAgentTools_updatePriority
          [''critical'', ''high'', ''medium'', ''low'']
          [''low'', ''medium'', ''high''])) \<subseteq> {Inr (P 1), Inr (P 2), Inr (P 3), Inr (P 4)}"
  by (simp add: lookup_defs tool_defs)

text \<open>
  C3, as claimed: \<^verbatim>\<open>createPriorityAssessmentTool\<close> and the Bug tool compute the same
  priority on every pair. At impact critical and urgency high the first gives 2 and
  the second gives 1.
\<close>

theorem assessment_differs_from_bug:
  "createPriorityAssessmentTool ''critical'' ''high'' = Inr (P 2) \<and>
   createBugAgentTools_updatePriority ''critical'' ''high'' = Inr (P 1) \<and>
   createPriorityAssessmentTool ''critical'' ''high'' \<noteq>
     createBugAgentTools_updatePriority ''critical'' ''high''"
  by (simp add: lookup_defs tool_defs)

text \<open>
  C3, amended. The code holds two impact by urgency matrices. On the declared levels
  \<^verbatim>\<open>createPriorityAssessmentTool\<close> gives the matrix below, a number from 1 to 4; it
  equals the priority of the Bug tool on the eight pairs whose levels are the same or
  two apart in the order critical, high, medium, low, and is that priority plus one on
  the other eight pairs.
\<close>

theorem assessment_gap:
  "tabulate createPriorityAssessmentTool
     [''critical'', ''high'', ''medium'', ''low'']
     [''critical'', ''high'', ''medium'', ''low''] =
     [[Inr (P 1), Inr (P 2), Inr (P 2), Inr (P 3)],
      [Inr (P 2), Inr (P 2), Inr (P 3), Inr (P 3)],
      [Inr (P 2), Inr (P 3), Inr (P 3), Inr (P 4)],
      [Inr (P 3), Inr (P 3), Inr (P 4), Inr (P 4)]] \<and>
   tabulate priority_gap
     [''critical'', ''high'', ''medium'', ''low'']
     [''critical'', ''high'', ''medium'', ''low''] =
     [[Some 0, Some 1, Some 0, Some 1],
      [Some 1, Some 0, Some 1, Some 0],
      [Some 0, Some 1, Some 0, Some 1],
      [Some 1, Some 0, Some 1, Some 0]]"
  by (simp add: lookup_defs tool_defs priority_gap_def)

subsection \<open>Pairs outside the tables\<close>





























section \<open>Properties of the authenticator, the classifier and the entry points\<close>

lemmas example_defs =
  example_hmac_def example_issue_def example_payload_def example_parse_def
  example_runtime_def example_request_def example_context_env_def example_env_def

lemmas verify_defs =
  verifyWebhookIp_def verifyWebhookSignature_def verifyWebhookTimestamp_def ALLOWED_IPS_def

lemmas request_defs =
  request_headers_def POST_ip_def serve_ip_def or_string_def or_else_def truthy_def
  trim_def split_first_def is_space_def

subsection \<open>The timestamp window\<close>

text \<open>
  C5. \<^verbatim>\<open>verifyWebhookTimestamp\<close> returns true exactly when the current time and the
  payload's \<^verbatim>\<open>webhookTimestamp\<close> are at most 60000 ms apart. The bound is inclusive on
  both sides: a timestamp 60000 ms in the past or in the future passes, one 60001 ms
  away fails.
\<close>

theorem verifyWebhookTimestamp_window:
  "verifyWebhookTimestamp rt payload = (\<bar>Date_now rt - webhookTimestamp payload\<bar> \<le> 60000) \<and>
   verifyWebhookTimestamp (rt\<lparr>Date_now := t + 60000\<rparr>) (payload\<lparr>webhookTimestamp := t\<rparr>) \<and>
   verifyWebhookTimestamp (rt\<lparr>Date_now := t\<rparr>) (payload\<lparr>webhookTimestamp := t + 60000\<rparr>) \<and>
   \<not> verifyWebhookTimestamp (rt\<lparr>Date_now := t + 60001\<rparr>) (payload\<lparr>webhookTimestamp := t\<rparr>) \<and>
   \<not> verifyWebhookTimestamp (rt\<lparr>Date_now := t\<rparr>) (payload\<lparr>webhookTimestamp := t + 60001\<rparr>)"
  by (simp add: verifyWebhookTimestamp_def)

subsection \<open>The validator\<close>

text \<open>
  C2. With an empty secret \<^verbatim>\<open>validateWebhookRequest\<close> throws the configuration error,
  whatever the headers, the body and the address are. With a non-empty secret it
  returns true exactly when the address is one of the four allowlisted addresses, the
  \<^verbatim>\<open>linear-signature\<close> header equals the hex digest of the raw body keyed by the
  secret, and the body parses to a payload whose \<^verbatim>\<open>webhookTimestamp\<close> is within
  60000 ms of the current time.
\<close>

theorem validateWebhookRequest_conjunction:
  "(webhookSecret = [] \<longrightarrow>
      validateWebhookRequest rt hdrs b ip webhookSecret =
        Inl (Error ''LINEAR_WEBHOOK_SECRET is not configured'')) \<and>
   (webhookSecret \<noteq> [] \<longrightarrow>
      (validateWebhookRequest rt hdrs b ip webhookSecret = Inr True) =
        (ip \<in> {''35.231.147.226'', ''35.243.134.228'', ''34.140.253.14'', ''34.38.87.206''} \<and>
         linear_signature hdrs = hmac_sha256_hex rt webhookSecret b \<and>
         (case JSON_parse rt b of
            None \<Rightarrow> False
          | Some payload \<Rightarrow> \<bar>Date_now rt - webhookTimestamp payload\<bar> \<le> 60000)))"
  by (auto simp: validateWebhookRequest_def verify_defs split: option.splits)

text \<open>C2 at the example request: the empty secret, and the secret of the example.\<close>

theorem validateWebhookRequest_conjunction_witness:
  "validateWebhookRequest (example_runtime False False)
     (request_headers (example_request ''issue-bug.json'')) ''issue-bug.json''
     ''35.231.147.226'' [] = Inl (Error ''LINEAR_WEBHOOK_SECRET is not configured'') \<and>
   validateWebhookRequest (example_runtime False False)
     (request_headers (example_request ''issue-bug.json'')) ''issue-bug.json''
     ''35.231.147.226'' ''secret'' = Inr True"
  using validateWebhookRequest_conjunction
      [of "[]" "example_runtime False False"
          "request_headers (example_request ''issue-bug.json'')" "''issue-bug.json''"
          "''35.231.147.226''"]
    validateWebhookRequest_conjunction
      [of "''secret''" "example_runtime False False"
          "request_headers (example_request ''issue-bug.json'')" "''issue-bug.json''"
          "''35.231.147.226''"]
  by (simp add: example_defs request_defs)

subsection \<open>The classifier and the entry points\<close>

lemma accepted_iff_spec:
  "isIssueCreationEvent p = spec_issue_created p"
  "isIssueLabelUpdateEvent p = spec_issue_label_updated p"
  by (auto simp: isIssueCreationEvent_def isIssueLabelUpdateEvent_def spec_issue_created_def
      spec_issue_label_updated_def truthy_def split: option.splits)


lemma accepted_recheck:
  assumes "isIssueCreationEvent p \<or> isIssueLabelUpdateEvent p"
  obtains d where "data p = Some d" and "id' d \<noteq> []" and "recheck_payload p = Inr d"
proof -
  from assms have "truthy (map_option id' (data p))"
    by (auto simp: isIssueCreationEvent_def isIssueLabelUpdateEvent_def)
  then obtain d where d: "data p = Some d" "id' d \<noteq> []"
    by (cases "data p") (simp_all add: truthy_def)
  then have "recheck_payload p = Inr d"
    by (simp add: recheck_payload_def)
  with d show thesis
    by (rule that)
qed

lemma validateWebhookRequest_errors:
  "validateWebhookRequest rt hdrs b ip secret = Inl e \<Longrightarrow>
   e = Error ''LINEAR_WEBHOOK_SECRET is not configured'' \<or> e = SyntaxError"
  by (auto simp: validateWebhookRequest_def split: if_splits option.splits)

lemma initializeLinearClient_None:
  "initializeLinearClient None role = Inl (Error (''Missing API key for '' @ role @ '' role''))"
  by (simp add: initializeLinearClient_def truthy_def)

lemma initializeLinearClient_Some:
  "k \<noteq> [] \<Longrightarrow> initializeLinearClient (Some k) role = Inr (LinearClient k)"
  by (simp add: initializeLinearClient_def truthy_def as_string_def)

lemma initializeLinearClient_errors:
  "initializeLinearClient k role = Inl e \<Longrightarrow> e = Error (''Missing API key for '' @ role @ '' role'')"
  by (simp add: initializeLinearClient_def split: if_splits)

lemma process_issue_step_cases:
  "fst (process_issue_step rt c i pr) =
     (case task_run rt pr of
        Inr text \<Rightarrow> Inr text
      | Inl thrown \<Rightarrow>
          (case createComment rt c i (''[Manager Bot] '' @ error_notice) of
             Inl e \<Rightarrow> Inl (External e)
           | Inr _ \<Rightarrow> Inl (External thrown)))"
  by (simp add: process_issue_step_def createCommentTool_def Let_def split: sum.splits)

lemma POST_dispatch_cases:
  "fst (POST_dispatch rt c i pr) =
     (case task_run rt pr of
        Inr text \<Rightarrow> Inr (Response 200 (MessageTaskResult ''Issue processed successfully'' text))
      | Inl thrown \<Rightarrow> Inl (External thrown))"
  by (simp add: POST_dispatch_def createCommentTool_def Let_def split: sum.splits)

lemma validateEnv_Inr:
  assumes "validateEnv context_env = Inr env"
  shows "linearWebhookSecret env \<noteq> []" "managerApiKey env \<noteq> []" "bugApiKey env \<noteq> []"
    "featureApiKey env \<noteq> []" "improvementApiKey env \<noteq> []"
  using assms
  by (auto simp: validateEnv_def Let_def truthy_def as_string_def
      split: if_splits option.splits)

lemma validateEnv_errors:
  "validateEnv context_env = Inl e \<Longrightarrow>
   \<exists>ks. e = Error (''Missing required environment variables: '' @ ks)"
  by (auto simp: validateEnv_def Let_def split: if_splits)

lemma initialize_clients_step_Inr:
  assumes "validateEnv context_env = Inr env"
  shows "initialize_clients_step env =
     Inr (LinearClient (managerApiKey env), LinearClient (bugApiKey env),
          LinearClient (featureApiKey env), LinearClient (improvementApiKey env))"
  using validateEnv_Inr [OF assms]
  by (simp add: initialize_clients_step_def bind_result_def initializeLinearClient_Some)


lemma POST_try_valid:
  assumes "validateWebhookRequest rt (request_headers req) (body req) (POST_ip req)
             (linearWebhookSecret env) = Inr True"
    and "JSON_parse rt (body req) = Some p"
  shows "POST_try rt env req =
     (if \<not> isIssueCreationEvent p \<and> \<not> isIssueLabelUpdateEvent p
      then Inr (Response 200 (MessageDetails ''Event ignored'' ''Event type not supported''))
      else bind_result (recheck_payload p)
             (\<lambda>d. Inl (Error ''Missing API key for manager role'')))"
  using assms
  by (simp add: POST_try_def bind_result_def initializeLinearClient_None)

text \<open>
  C7. A parsed payload passes the classifier exactly when it is an issue creation with
  a non-empty id and title, or an issue update with a non-empty id and either the
  updated label ids or the labels collection present. When neither holds for the
  payload of a request that passed validation, \<^verbatim>\<open>POST\<close> answers 200 with the message
  \<open>Event ignored\<close>.
\<close>

theorem classifier_and_ignored_events:
  "(isIssueCreationEvent p \<or> isIssueLabelUpdateEvent p) =
     (spec_issue_created p \<or> spec_issue_label_updated p) \<and>
   (validateWebhookRequest rt (request_headers req) (body req) (POST_ip req)
      (linearWebhookSecret env) = Inr True \<and>
    JSON_parse rt (body req) = Some p \<and>
    \<not> spec_issue_created p \<and> \<not> spec_issue_label_updated p \<longrightarrow>
    POST_handler rt env req =
      Response 200 (MessageDetails ''Event ignored'' ''Event type not supported''))"
  by (simp add: accepted_iff_spec [symmetric] POST_handler_def POST_try_valid)

text \<open>C7 at the example comment event, which is ignored, and at the example issue.\<close>

theorem classifier_and_ignored_events_witness:
  "\<not> spec_issue_created (example_payload ''Comment'' ''Bug'') \<and>
   \<not> spec_issue_label_updated (example_payload ''Comment'' ''Bug'') \<and>
   spec_issue_created (example_payload ''Issue'' ''Bug'') \<and>
   isIssueCreationEvent (example_payload ''Issue'' ''Bug'') \<and>
   POST_handler (example_runtime False False) example_env (example_request ''comment.json'') =
     Response 200 (MessageDetails ''Event ignored'' ''Event type not supported'')"
  using classifier_and_ignored_events
      [of "example_payload ''Comment'' ''Bug''" "example_runtime False False"
          "example_request ''comment.json''" example_env]
    classifier_and_ignored_events
      [of "example_payload ''Issue'' ''Bug''" "example_runtime False False"
          "example_request ''comment.json''" example_env]
  by (simp add: example_defs request_defs validateWebhookRequest_def verify_defs
      spec_issue_created_def spec_issue_label_updated_def isIssueCreationEvent_def)

lemma POST_try_cases:
  "POST_try rt env req \<in>
     {Inl (Error ''LINEAR_WEBHOOK_SECRET is not configured''),
      Inl SyntaxError,
      Inr (Response 401
        (ErrorDetails ''Invalid webhook request''
           ''Failed to validate webhook signature or request'')),
      Inr (Response 200 (MessageDetails ''Event ignored'' ''Event type not supported'')),
      Inl (Error ''Missing API key for manager role'')}"
proof (cases "validateWebhookRequest rt (request_headers req) (body req) (POST_ip req)
    (linearWebhookSecret env)")
  case (Inl e)
  then show ?thesis
    using validateWebhookRequest_errors [OF Inl]
    by (auto simp: POST_try_def bind_result_def)
next
  case (Inr valid)
  show ?thesis
  proof (cases "valid \<and> JSON_parse rt (body req) \<noteq> None")
    case False
    with Inr show ?thesis
      by (auto simp: POST_try_def bind_result_def)
  next
    case True
    then obtain p where p: "JSON_parse rt (body req) = Some p"
      by blast
    from True Inr have valid: "validateWebhookRequest rt (request_headers req) (body req)
        (POST_ip req) (linearWebhookSecret env) = Inr True"
      by simp
    show ?thesis
    proof (cases "isIssueCreationEvent p \<or> isIssueLabelUpdateEvent p")
      case False
      then show ?thesis
        by (simp add: POST_try_valid [OF valid p])
    next
      case True
      then obtain d where "recheck_payload p = Inr d"
        by (rule accepted_recheck)
      with True show ?thesis
        by (simp add: POST_try_valid [OF valid p] bind_result_def)
    qed
  qed
qed

lemma POST_handler_never_missing_id:
  "POST_handler rt env req \<noteq>
     Response 500 (ErrorDetailsType ''Error processing webhook''
       (Error ''Invalid payload: missing issue ID''))"
  using POST_try_cases [of rt env req]
  by (auto simp: POST_handler_def)

lemma validate_webhook_step_cases:
  "validate_webhook_step rt env request = Inl e \<Longrightarrow>
     e = Error ''LINEAR_WEBHOOK_SECRET is not configured'' \<or> e = SyntaxError \<or>
     e = Error ''Invalid webhook request''"
  "validate_webhook_step rt env request = Inr v \<Longrightarrow>
     v = ValidationResult ''ignored'' (Some ''Event type not supported'') None \<or>
     (\<exists>p. v = ValidationResult ''valid'' None (Some p) \<and> JSON_parse rt (body request) = Some p \<and>
          (isIssueCreationEvent p \<or> isIssueLabelUpdateEvent p))"
  by (auto simp: validate_webhook_step_def bind_result_def
      dest: validateWebhookRequest_errors split: sum.splits if_splits option.splits)

lemma serve_handler_never_missing_id:
  "serve_handler rt context_env request \<noteq> Inl (Error ''Invalid payload: missing issue ID'')"
proof (cases "validateEnv context_env")
  case (Inl e)
  with validateEnv_errors [OF Inl] show ?thesis
    by (auto simp: serve_handler_def bind_result_def)
next
  case env: (Inr env)
  show ?thesis
  proof (cases "validate_webhook_step rt env request")
    case (Inl e)
    with env validate_webhook_step_cases(1) [OF Inl] show ?thesis
      by (auto simp: serve_handler_def bind_result_def)
  next
    case (Inr v)
    from validate_webhook_step_cases(2) [OF Inr] show ?thesis
    proof
      assume "v = ValidationResult ''ignored'' (Some ''Event type not supported'') None"
      with env Inr show ?thesis
        by (simp add: serve_handler_def bind_result_def)
    next
      assume "\<exists>p. v = ValidationResult ''valid'' None (Some p) \<and>
          JSON_parse rt (body request) = Some p \<and>
          (isIssueCreationEvent p \<or> isIssueLabelUpdateEvent p)"
      then obtain p where v: "v = ValidationResult ''valid'' None (Some p)"
        and acc: "isIssueCreationEvent p \<or> isIssueLabelUpdateEvent p"
        by blast
      from acc obtain d where d: "recheck_payload p = Inr d"
        by (rule accepted_recheck)
      from env Inr v d show ?thesis
        by (simp add: serve_handler_def bind_result_def initialize_clients_step_Inr [OF env]
            process_issue_step_cases split: sum.splits)
    qed
  qed
qed

text \<open>
  C9. A payload that the classifier accepts has its \<^verbatim>\<open>data\<close> and a non-empty id, so
  the re-check after the classifier returns the data; and no request makes either entry
  point end with the error \<open>Invalid payload: missing issue ID\<close>.
\<close>

theorem accepted_payload_has_id:
  "(isIssueCreationEvent p \<or> isIssueLabelUpdateEvent p \<longrightarrow>
      (case data p of
         None \<Rightarrow> False
       | Some d \<Rightarrow> id' d \<noteq> [] \<and> recheck_payload p = Inr d)) \<and>
   POST_handler rt env req \<noteq>
     Response 500 (ErrorDetailsType ''Error processing webhook''
       (Error ''Invalid payload: missing issue ID'')) \<and>
   serve_handler rt context_env request \<noteq> Inl (Error ''Invalid payload: missing issue ID'')"
proof (intro conjI impI)
  assume "isIssueCreationEvent p \<or> isIssueLabelUpdateEvent p"
  then obtain d where "data p = Some d" "id' d \<noteq> []" "recheck_payload p = Inr d"
    by (rule accepted_recheck)
  then show "case data p of None \<Rightarrow> False | Some d \<Rightarrow> id' d \<noteq> [] \<and> recheck_payload p = Inr d"
    by simp
next
  show "POST_handler rt env req \<noteq>
     Response 500 (ErrorDetailsType ''Error processing webhook''
       (Error ''Invalid payload: missing issue ID''))"
    by (rule POST_handler_never_missing_id)
next
  show "serve_handler rt context_env request \<noteq> Inl (Error ''Invalid payload: missing issue ID'')"
    by (rule serve_handler_never_missing_id)
qed


text \<open>C9 at the example issue creation.\<close>

theorem accepted_payload_has_id_witness:
  "isIssueCreationEvent (example_payload ''Issue'' ''Bug'') \<and>
   recheck_payload (example_payload ''Issue'' ''Bug'') = Inr (example_issue ''Bug'') \<and>
   id' (example_issue ''Bug'') = ''ISS-1''"
  using accepted_payload_has_id [of "example_payload ''Issue'' ''Bug''"]
  by (simp add: example_defs isIssueCreationEvent_def truthy_def)

text \<open>
  C10. When the secret is set, the address is allowlisted and the signature matches the
  digest of a body that \<^verbatim>\<open>JSON.parse\<close> rejects, \<^verbatim>\<open>validateWebhookRequest\<close> throws the
  SyntaxError instead of returning false, and \<^verbatim>\<open>POST\<close> answers 500, not 401.
\<close>

theorem invalid_json_body_is_500:
  assumes "linearWebhookSecret env \<noteq> []"
    and "POST_ip req \<in> set ALLOWED_IPS"
    and "linear_signature (request_headers req) =
           hmac_sha256_hex rt (linearWebhookSecret env) (body req)"
    and "JSON_parse rt (body req) = None"
  shows "validateWebhookRequest rt (request_headers req) (body req) (POST_ip req)
           (linearWebhookSecret env) = Inl SyntaxError \<and>
         POST_handler rt env req =
           Response 500 (ErrorDetailsType ''Error processing webhook'' SyntaxError)"
proof -
  from assms have "validateWebhookRequest rt (request_headers req) (body req) (POST_ip req)
      (linearWebhookSecret env) = Inl SyntaxError"
    by (simp add: validateWebhookRequest_def verifyWebhookIp_def verifyWebhookSignature_def)
  then show ?thesis
    by (simp add: POST_handler_def POST_try_def bind_result_def)
qed

text \<open>C10 at a signed request from an allowlisted address whose body is not JSON.\<close>

theorem invalid_json_body_is_500_witness:
  "POST_ip (example_request ''not json'') = ''35.231.147.226'' \<and>
   linear_signature (request_headers (example_request ''not json'')) =
     hmac_sha256_hex (example_runtime False False) ''secret'' ''not json'' \<and>
   JSON_parse (example_runtime False False) ''not json'' = None \<and>
   validateWebhookRequest (example_runtime False False)
     (request_headers (example_request ''not json'')) ''not json'' ''35.231.147.226''
     ''secret'' = Inl SyntaxError \<and>
   POST_handler (example_runtime False False) example_env (example_request ''not json'') =
     Response 500 (ErrorDetailsType ''Error processing webhook'' SyntaxError)"
  using invalid_json_body_is_500
      [of example_env "example_request ''not json''" "example_runtime False False"]
  by (simp add: example_defs request_defs ALLOWED_IPS_def)

subsection \<open>Failure of the dispatch\<close>

text \<open>
  C4. When \<^verbatim>\<open>task.run()\<close> throws and the comment that reports it throws too, the
  step \<^verbatim>\<open>process-issue\<close> of the \<^verbatim>\<open>serve\<close> handler ends with the error of the
  comment, after one attempt to comment and without logging; the dispatch of \<^verbatim>\<open>POST\<close>
  at the same point makes one attempt, logs its failure and ends with the error of the
  task.
\<close>

theorem notification_failure_masks_task_error:
  assumes "task_run rt prompt = Inl taskError"
    and "createComment rt managerClient issueId (''[Manager Bot] '' @ error_notice) =
           Inl commentError"
  shows "process_issue_step rt managerClient issueId prompt =
           (Inl (External commentError),
            [CreateComment managerClient issueId (''[Manager Bot] '' @ error_notice)]) \<and>
         POST_dispatch rt managerClient issueId prompt =
           (Inl (External taskError),
            [ConsoleError ''Task execution error:'' (External taskError),
             CreateComment managerClient issueId (''[Manager Bot] '' @ error_notice),
             ConsoleError ''Failed to comment error on issue:'' (External commentError)])"
  using assms
  by (simp add: process_issue_step_def POST_dispatch_def createCommentTool_def Let_def)

text \<open>C4 at the example issue, with a task runner and a comment poster that throw.\<close>

theorem notification_failure_masks_task_error_witness:
  "process_issue_step (example_runtime True True) (LinearClient ''key-m'') ''ISS-1''
     (task_prompt (example_runtime True True) (example_issue ''Bug'')) =
     (Inl (External ''comment failed''),
      [CreateComment (LinearClient ''key-m'') ''ISS-1'' (''[Manager Bot] '' @ error_notice)]) \<and>
   fst (POST_dispatch (example_runtime True True) (LinearClient ''key-m'') ''ISS-1''
     (task_prompt (example_runtime True True) (example_issue ''Bug''))) =
     Inl (External ''task failed'')"
  using notification_failure_masks_task_error
      [of "example_runtime True True"
          "task_prompt (example_runtime True True) (example_issue ''Bug'')" "''task failed''"
          "LinearClient ''key-m''" "''ISS-1''" "''comment failed''"]
  by (simp add: example_runtime_def)

lemma serve_handler_accepted:
  assumes env: "validateEnv context_env = Inr env"
    and valid: "validateWebhookRequest rt (request_headers request) (body request)
           (serve_ip request) (linearWebhookSecret env) = Inr True"
    and p: "JSON_parse rt (body request) = Some p"
    and acc: "isIssueCreationEvent p \<or> isIssueLabelUpdateEvent p"
    and d: "data p = Some d"
  shows "serve_handler rt context_env request =
     bind_result
       (fst (process_issue_step rt (LinearClient (managerApiKey env)) (id' d) (task_prompt rt d)))
       (\<lambda>result. Inr (Processed ''Issue processed successfully'' result))"
proof -
  from acc obtain d' where "data p = Some d'" and "recheck_payload p = Inr d'"
    by (rule accepted_recheck)
  with d have "recheck_payload p = Inr d"
    by simp
  moreover from valid p acc have "validate_webhook_step rt env request =
      Inr (ValidationResult ''valid'' None (Some p))"
    by (simp add: validate_webhook_step_def bind_result_def)
  ultimately show ?thesis
    using env
    by (simp add: serve_handler_def bind_result_def initialize_clients_step_Inr [OF env])
qed

subsection \<open>The label\<close>

lemma toLowerCase_ascii: "list_all is_ascii s \<Longrightarrow> toLowerCase rt s = map lower_char s"
  by (simp add: toLowerCase_def)

lemma firstLabel_first: "firstLabel (Some \<lparr>nodes = Some (\<lparr>name = l\<rparr> # rest)\<rparr>) = l"
  by (cases l) (simp_all add: firstLabel_def or_string_def or_else_def truthy_def)

lemma firstLabel_none:
  "firstLabel (Some \<lparr>nodes = Some []\<rparr>) = []"
  "firstLabel (Some \<lparr>nodes = None\<rparr>) = []"
  "firstLabel None = []"
  by (simp_all add: firstLabel_def or_string_def or_else_def truthy_def)

lemma lower_char_letters:
  "map lower_char ''ABCDEFGHIJKLMNOPQRSTUVWXYZ'' = ''abcdefghijklmnopqrstuvwxyz''"
  by (simp add: lower_char_def)

lemma map_of_zip_None: "c \<notin> set xs \<Longrightarrow> map_of (zip xs ys) c = None"
  by (auto simp: map_of_eq_None_iff dest: set_zip_leftD)

lemma lower_char_other:
  assumes "c \<notin> set ''ABCDEFGHIJKLMNOPQRSTUVWXYZ''"
  shows "lower_char c = c"
  unfolding lower_char_def
  by (simp only: map_of_zip_None [OF assms] option.case)

lemma is_ascii_examples: "list_all is_ascii ''Bug''" "list_all is_ascii ''BUG''" "list_all is_ascii ''bug''"
  by (simp_all add: is_ascii_def)


text \<open>
  C8, amended. The label handed to the dispatch is the name of the first label put in
  lower case by \<^verbatim>\<open>toLowerCase\<close>, or the empty string when there is no label. On an
  ASCII label that turns each of \<open>A\<close>..\<open>Z\<close> into the letter of \<open>a\<close>..\<open>z\<close> and keeps
  every other character, so \<open>Bug\<close>, \<open>BUG\<close> and \<open>bug\<close> are the same label. The code
  compares the label with nothing and returns no routing decision: the \<^verbatim>\<open>serve\<close>
  handler dispatches every accepted event of a validated request with that label in the
  prompt; the request succeeds with the text of the task when the task runner returns,
  and fails when it throws.
\<close>

theorem label_lowercased_and_dispatched:
  "map lower_char ''ABCDEFGHIJKLMNOPQRSTUVWXYZ'' = ''abcdefghijklmnopqrstuvwxyz'' \<and>
   (c \<notin> set ''ABCDEFGHIJKLMNOPQRSTUVWXYZ'' \<longrightarrow> lower_char c = c) \<and>
   toLowerCase rt ''Bug'' = ''bug'' \<and> toLowerCase rt ''BUG'' = ''bug'' \<and>
   toLowerCase rt ''bug'' = ''bug'' \<and>
   issueLabel rt (Some \<lparr>nodes = Some (\<lparr>name = l\<rparr> # rest)\<rparr>) = toLowerCase rt l \<and>
   (list_all is_ascii l \<longrightarrow>
      issueLabel rt (Some \<lparr>nodes = Some (\<lparr>name = l\<rparr> # rest)\<rparr>) = map lower_char l) \<and>
   issueLabel rt (Some \<lparr>nodes = Some []\<rparr>) = [] \<and>
   issueLabel rt (Some \<lparr>nodes = None\<rparr>) = [] \<and>
   issueLabel rt None = [] \<and>
   (validateEnv context_env = Inr env \<and>
    validateWebhookRequest rt (request_headers request) (body request) (serve_ip request)
      (linearWebhookSecret env) = Inr True \<and>
    JSON_parse rt (body request) = Some p \<and>
    (isIssueCreationEvent p \<or> isIssueLabelUpdateEvent p) \<and>
    data p = Some d \<longrightarrow>
    (case task_run rt
            (TaskPrompt (id' d) (title d) (description d)
               (toLowerCase rt (firstLabel (labels d)))) of
       Inr text \<Rightarrow>
         serve_handler rt context_env request =
           Inr (Processed ''Issue processed successfully'' text)
     | Inl thrown \<Rightarrow> isl (serve_handler rt context_env request)))"
proof -
  have letters: "map lower_char ''ABCDEFGHIJKLMNOPQRSTUVWXYZ'' = ''abcdefghijklmnopqrstuvwxyz''"
    by (rule lower_char_letters)
  have other: "c \<notin> set ''ABCDEFGHIJKLMNOPQRSTUVWXYZ'' \<longrightarrow> lower_char c = c"
    using lower_char_other by blast
  have lower: "toLowerCase rt ''Bug'' = ''bug'' \<and> toLowerCase rt ''BUG'' = ''bug'' \<and>
      toLowerCase rt ''bug'' = ''bug''"
    by (simp add: is_ascii_examples [THEN toLowerCase_ascii] lower_char_def)
  have first: "issueLabel rt (Some \<lparr>nodes = Some (\<lparr>name = l\<rparr> # rest)\<rparr>) = toLowerCase rt l"
    by (simp only: issueLabel_def firstLabel_first)
  then have ascii: "list_all is_ascii l \<longrightarrow>
      issueLabel rt (Some \<lparr>nodes = Some (\<lparr>name = l\<rparr> # rest)\<rparr>) = map lower_char l"
    by (simp add: toLowerCase_ascii)
  have none: "issueLabel rt (Some \<lparr>nodes = Some []\<rparr>) = [] \<and>
      issueLabel rt (Some \<lparr>nodes = None\<rparr>) = [] \<and> issueLabel rt None = []"
    by (simp add: issueLabel_def firstLabel_none toLowerCase_def)
  have "case task_run rt
            (TaskPrompt (id' d) (title d) (description d)
               (toLowerCase rt (firstLabel (labels d)))) of
       Inr text \<Rightarrow>
         serve_handler rt context_env request =
           Inr (Processed ''Issue processed successfully'' text)
     | Inl thrown \<Rightarrow> isl (serve_handler rt context_env request)"
    if "validateEnv context_env = Inr env"
      and "validateWebhookRequest rt (request_headers request) (body request)
        (serve_ip request) (linearWebhookSecret env) = Inr True"
      and "JSON_parse rt (body request) = Some p"
      and "isIssueCreationEvent p \<or> isIssueLabelUpdateEvent p"
      and "data p = Some d"
    using serve_handler_accepted [OF that]
    by (simp add: process_issue_step_cases bind_result_def task_prompt_def issueLabel_def
        split: sum.splits)
  with letters other lower first ascii none show ?thesis
    by blast
qed

text \<open>C8, amended, at the example issue with the label \<open>Bug\<close>.\<close>

theorem label_lowercased_and_dispatched_witness:
  "issueLabel (example_runtime False False) (labels (example_issue ''BUG'')) = ''bug'' \<and>
   serve_handler (example_runtime False False) example_context_env
     (example_request ''issue-bug.json'') =
     Inr (Processed ''Issue processed successfully'' ''analysis done'')"
  using label_lowercased_and_dispatched
      [of "CHR ''b''" "example_runtime False False" "''BUG''" "[]" example_context_env
          example_env "example_request ''issue-bug.json''" "example_payload ''Issue'' ''Bug''"
          "example_issue ''Bug''"]
  by (simp add: example_defs request_defs validateWebhookRequest_def verify_defs
      validateEnv_def as_string_def isIssueCreationEvent_def is_ascii_def lower_char_def
      toLowerCase_def)

text \<open>
  C8, as claimed: a label that is none of Bug, Feature and Improvement ends in a
  returned rejection. With the label \<open>urgent\<close> the \<^verbatim>\<open>serve\<close> handler returns the
  success of a processed issue, the same result as for the label \<open>Bug\<close>.
\<close>

theorem unknown_label_is_dispatched:
  "issueLabel (example_runtime False False) (labels (example_issue ''urgent'')) = ''urgent'' \<and>
   serve_handler (example_runtime False False) example_context_env
     (example_request ''issue-urgent.json'') =
     Inr (Processed ''Issue processed successfully'' ''analysis done'') \<and>
   serve_handler (example_runtime False False) example_context_env
     (example_request ''issue-urgent.json'') =
     serve_handler (example_runtime False False) example_context_env
       (example_request ''issue-bug.json'')"
  by (simp add: example_defs request_defs validateWebhookRequest_def verify_defs
      validateEnv_def as_string_def isIssueCreationEvent_def isIssueLabelUpdateEvent_def
      serve_handler_def validate_webhook_step_def bind_result_def recheck_payload_def
      initialize_clients_step_def initializeLinearClient_def process_issue_step_def
      createCommentTool_def task_prompt_def issueLabel_def firstLabel_def toLowerCase_def
      lower_char_def is_ascii_def Let_def)

end
